theory Spec2Isabelle
  imports Complex_Main "HOL-Library.AList"
begin

section \<open>Canvas viewport plugin: values, documents and the host\<close>

text \<open>
  The development embeds the multi-device version of the plugin (the second program of
  \<^verbatim>\<open>src/main.ts\<close>, with \<^verbatim>\<open>viewports\<close>, settings and the device key).

  \<^item> A canvas file holds JSON. The type \<open>json\<close> is what such a file can hold; \<open>jsval\<close> is
    a JavaScript value in memory, which can be more than JSON: \<^verbatim>\<open>undefined\<close>, the numbers
    NaN and the infinities, and an array that carries named properties.
  \<^item> The text of a file is modelled by what \<^verbatim>\<open>JSON.parse\<close> makes of it: \<open>Malformed\<close> for
    a text it rejects, \<open>Doc j\<close> for a text that parses to \<open>j\<close>. Two texts with the same
    parse are not told apart, so whether a file was rewritten is read off the vault's log
    of writes, not off the bytes.
  \<^item> A finite number is the rational it denotes, and a number literal of a document
    stands for the number \<^verbatim>\<open>JSON.parse\<close> reads from it: \<open>JNum r\<close> for a literal that reads
    as the finite number \<open>r\<close>, \<open>JHuge s\<close> for a literal too large for a double (such as
    \<^verbatim>\<open>1e400\<close>), which reads as the infinity of sign \<open>s\<close>. Floating-point arithmetic is not
    modelled: the one subtraction of the program is kept symbolic.
  \<^item> Properties are looked up among an object's own properties. The only names the
    program looks up are \<^verbatim>\<open>viewports\<close> and the viewport key, which is \<^verbatim>\<open>global\<close> or a
    device identifier containing \<^verbatim>\<open>@\<close>; none of them is an array index, \<^verbatim>\<open>length\<close> or a
    name inherited from a prototype.
  \<^item> The program is a class body, hence strict-mode code: assigning a property of a
    primitive value raises a TypeError.
  \<^item> Debug logging (\<^verbatim>\<open>log\<close>, \<^verbatim>\<open>logGroup\<close>, \<^verbatim>\<open>logGroupEnd\<close>) only prints and is left out.
\<close>

datatype sign = Plus | Minus

datatype json =
    JNull
  | JBool bool
  | JNum rat
  | JHuge sign
  | JStr string
  | JArr "json list"
  | JObj "(string \<times> json) list"

datatype number = Finite rat | NaN | PosInfinity | NegInfinity

datatype jsval =
    VUndefined
  | VNull
  | VBool bool
  | VNum number
  | VStr string
  | VArr "jsval list" "(string \<times> jsval) list"
  | VObj "(string \<times> jsval) list"

datatype error = SyntaxError | TypeError | IOError

datatype content = Malformed | Doc json

subsection \<open>JSON.parse and JSON.stringify\<close>

text \<open>\<open>of_json\<close> is the value \<^verbatim>\<open>JSON.parse\<close> builds: arrays come without named properties.\<close>

fun infinity :: "sign \<Rightarrow> number" where
  "infinity Plus = PosInfinity"
| "infinity Minus = NegInfinity"

primrec of_json :: "json \<Rightarrow> jsval" where
  "of_json JNull = VNull"
| "of_json (JBool b) = VBool b"
| "of_json (JNum r) = VNum (Finite r)"
| "of_json (JHuge s) = VNum (infinity s)"
| "of_json (JStr s) = VStr s"
| "of_json (JArr xs) = VArr (map of_json xs) []"
| "of_json (JObj ps) = VObj (map (map_prod id of_json) ps)"

definition keep_defined :: "(string \<times> json option) list \<Rightarrow> (string \<times> json) list" where
  "keep_defined ps = List.map_filter (\<lambda>p. map_option (Pair (fst p)) (snd p)) ps"

definition null_if_undefined :: "json option \<Rightarrow> json" where
  "null_if_undefined x = (case x of None \<Rightarrow> JNull | Some j \<Rightarrow> j)"

text \<open>
  \<open>to_json\<close> is what \<^verbatim>\<open>JSON.stringify\<close> keeps of a value: nothing of \<^verbatim>\<open>undefined\<close>
  (\<open>None\<close>), \<^verbatim>\<open>null\<close> for a number that is not finite and for an undefined array element;
  a property whose value is undefined is dropped, and so are the named properties of an
  array.
\<close>

primrec to_json :: "jsval \<Rightarrow> json option" where
  "to_json VUndefined = None"
| "to_json VNull = Some JNull"
| "to_json (VBool b) = Some (JBool b)"
| "to_json (VNum n) = Some (case n of Finite r \<Rightarrow> JNum r | NaN \<Rightarrow> JNull
     | PosInfinity \<Rightarrow> JNull | NegInfinity \<Rightarrow> JNull)"
| "to_json (VStr s) = Some (JStr s)"
| "to_json (VArr xs ps) = Some (JArr (map null_if_undefined (map to_json xs)))"
| "to_json (VObj ps) = Some (JObj (keep_defined (map (map_prod id to_json) ps)))"

definition JSON_parse :: "content \<Rightarrow> error + jsval" where
  "JSON_parse c = (case c of Malformed \<Rightarrow> Inl SyntaxError | Doc j \<Rightarrow> Inr (of_json j))"

definition JSON_stringify :: "jsval \<Rightarrow> content option" where
  "JSON_stringify v = map_option Doc (to_json v)"

text \<open>
  \<open>reparse j\<close> is the document that comes back when the value parsed from \<open>j\<close> is written
  out again: a number that read as an infinity is written as \<^verbatim>\<open>null\<close>, everything else is
  kept (lemma \<open>to_of_json\<close>). \<open>finite_numbers j\<close> says that no number of \<open>j\<close> reads as an
  infinity; such a document comes back as it was (lemma \<open>reparse_finite\<close>).
\<close>

primrec reparse :: "json \<Rightarrow> json" where
  "reparse JNull = JNull"
| "reparse (JBool b) = JBool b"
| "reparse (JNum r) = JNum r"
| "reparse (JHuge s) = JNull"
| "reparse (JStr s) = JStr s"
| "reparse (JArr xs) = JArr (map reparse xs)"
| "reparse (JObj ps) = JObj (map (map_prod id reparse) ps)"


subsection \<open>Truthiness and property access\<close>

fun truthy :: "jsval \<Rightarrow> bool" where
  "truthy VUndefined = False"
| "truthy VNull = False"
| "truthy (VBool b) = b"
| "truthy (VNum n) = (n \<noteq> Finite 0 \<and> n \<noteq> NaN)"
| "truthy (VStr s) = (s \<noteq> [])"
| "truthy (VArr xs ps) = True"
| "truthy (VObj ps) = True"

definition own :: "(string \<times> jsval) list \<Rightarrow> string \<Rightarrow> jsval" where
  "own ps k = (case map_of ps k of None \<Rightarrow> VUndefined | Some v \<Rightarrow> v)"

text \<open>\<^verbatim>\<open>v[k]\<close>: reading a property of \<^verbatim>\<open>undefined\<close> or \<^verbatim>\<open>null\<close> raises.\<close>

fun get_prop :: "jsval \<Rightarrow> string \<Rightarrow> error + jsval" where
  "get_prop VUndefined k = Inl TypeError"
| "get_prop VNull k = Inl TypeError"
| "get_prop (VObj ps) k = Inr (own ps k)"
| "get_prop (VArr xs ps) k = Inr (own ps k)"
| "get_prop v k = Inr VUndefined"

text \<open>\<^verbatim>\<open>v?.[k]\<close>: optional chaining gives \<^verbatim>\<open>undefined\<close> on \<^verbatim>\<open>undefined\<close> and \<^verbatim>\<open>null\<close>.\<close>

fun get_prop_opt :: "jsval \<Rightarrow> string \<Rightarrow> error + jsval" where
  "get_prop_opt VUndefined k = Inr VUndefined"
| "get_prop_opt VNull k = Inr VUndefined"
| "get_prop_opt v k = get_prop v k"

text \<open>
  \<^verbatim>\<open>v[k] = x\<close>, returning the object as the assignment leaves it. An existing key keeps
  its place, a new one goes last.
\<close>

fun set_prop :: "jsval \<Rightarrow> string \<Rightarrow> jsval \<Rightarrow> error + jsval" where
  "set_prop (VObj ps) k x = Inr (VObj (AList.update k x ps))"
| "set_prop (VArr xs ps) k x = Inr (VArr xs (AList.update k x ps))"
| "set_prop v k x = Inl TypeError"

text \<open>\<^verbatim>\<open>delete v[k]\<close>: on a primitive there is nothing to delete.\<close>

fun delete_prop :: "jsval \<Rightarrow> string \<Rightarrow> error + jsval" where
  "delete_prop VUndefined k = Inl TypeError"
| "delete_prop VNull k = Inl TypeError"
| "delete_prop (VObj ps) k = Inr (VObj (AList.delete k ps))"
| "delete_prop (VArr xs ps) k = Inr (VArr xs (AList.delete k ps))"
| "delete_prop v k = Inr v"

text \<open>\<^verbatim>\<open>Object.keys(v).length\<close>.\<close>

fun keys_length :: "jsval \<Rightarrow> error + nat" where
  "keys_length VUndefined = Inl TypeError"
| "keys_length VNull = Inl TypeError"
| "keys_length (VObj ps) = Inr (length ps)"
| "keys_length (VArr xs ps) = Inr (length xs + length ps)"
| "keys_length (VStr s) = Inr (length s)"
| "keys_length v = Inr 0"

text \<open>Sequencing of statements that may raise: the first exception ends the block.\<close>

definition bind :: "error + 'a \<Rightarrow> ('a \<Rightarrow> error + 'b) \<Rightarrow> error + 'b" where
  "bind m f = (case m of Inl e \<Rightarrow> Inl e | Inr x \<Rightarrow> f x)"

subsection \<open>The host: files, the vault, canvas views\<close>

record tfile =
  path :: string
  extension :: string

text \<open>
  The live canvas of a view: its camera fields and the calls made on it. The methods
  \<^verbatim>\<open>zoomBy\<close>, \<^verbatim>\<open>panTo\<close> and \<^verbatim>\<open>markViewportChanged\<close> are reached through a cast to
  \<^verbatim>\<open>any\<close>; \<open>methods\<close> lists the names the object really has as functions, and calling any
  other name raises a TypeError. The zoom delta is a floating-point difference; it is
  kept as the pair of its operands (\<open>Diff\<close>).
\<close>

datatype arg = Val jsval | Diff jsval jsval

datatype call = Call string "arg list"

record canvas =
  tx :: jsval
  ty :: jsval
  tZoom :: jsval
  methods :: "string list"
  calls :: "call list"

text \<open>
  A canvas view. The interface \<^verbatim>\<open>CanvasView\<close> gives every view a file; the canvas is
  tested for absence before it is used, so it is optional here.
\<close>

record canvas_view =
  "file" :: tfile
  canvas :: "canvas option"

text \<open>
  The vault maps a path to the content of the file there. A file that is not there
  cannot be read or modified, a file listed in \<open>readonly\<close> rejects every write, and
  \<open>writes\<close> logs every write that went through.
\<close>

record vault =
  files :: "string \<Rightarrow> content option"
  readonly :: "string list"
  writes :: "(string \<times> content) list"

definition vault_read :: "vault \<Rightarrow> tfile \<Rightarrow> error + content" where
  "vault_read vt f = (case files vt (path f) of None \<Rightarrow> Inl IOError | Some c \<Rightarrow> Inr c)"

definition vault_modify :: "vault \<Rightarrow> tfile \<Rightarrow> content option \<Rightarrow> error + vault" where
  "vault_modify vt f data =
     (case data of
        None \<Rightarrow> Inl TypeError
      | Some c \<Rightarrow>
          if files vt (path f) = None \<or> path f \<in> set (readonly vt) then Inl IOError
          else Inr (vt\<lparr>files := (files vt)(path f \<mapsto> c),
                         writes := writes vt @ [(path f, c)]\<rparr>))"

text \<open>A callback handed to \<^verbatim>\<open>requestAnimationFrame\<close>, with what its closure captured.\<close>

record frame =
  frame_canvas :: canvas
  frame_zoomDelta :: arg
  frame_position :: jsval

record world =
  vault :: vault
  notices :: "string list"
  console_errors :: "string list"
  frames :: "frame list"

subsection \<open>The plugin\<close>

record CanvasViewportSettings =
  debugMode :: bool
  useGlobalViewport :: bool

definition DEFAULT_SETTINGS :: CanvasViewportSettings where
  "DEFAULT_SETTINGS = \<lparr>debugMode = False, useGlobalViewport = False\<rparr>"

record plugin =
  openCanvasFiles :: "string list"
  currentDevice :: string
  settings :: CanvasViewportSettings

definition getViewportKey :: "plugin \<Rightarrow> string" where
  "getViewportKey p = (if useGlobalViewport (settings p) then ''global'' else currentDevice p)"

text \<open>
  What \<^verbatim>\<open>getDeviceIdentifier\<close> reads from the host. The screen's width and height and
  the pixel ratio are numbers that the template literal turns into text; they are taken
  as that text.
\<close>

record platform =
  isMacOS :: bool
  isWin :: bool
  isLinux :: bool
  isMobile :: bool
  isPhone :: bool
  isTablet :: bool
  isIosApp :: bool
  isAndroidApp :: bool
  isDesktopApp :: bool
  screen_width :: string
  screen_height :: string
  devicePixelRatio :: string

definition getDeviceIdentifier :: "platform \<Rightarrow> string" where
  "getDeviceIdentifier pf =
     (let deviceType0 =
            (if isMacOS pf then ''MacOS''
             else if isWin pf then ''Windows''
             else if isLinux pf then ''Linux''
             else ''Unknown'');
          deviceType =
            (if isMobile pf then
               (let d = (if isPhone pf then deviceType0 @ ''_Phone''
                         else if isTablet pf then deviceType0 @ ''_Tablet''
                         else deviceType0)
                in if isIosApp pf then ''iOS_'' @ d
                   else if isAndroidApp pf then ''Android_'' @ d
                   else d)
             else if isDesktopApp pf then deviceType0 @ ''_Desktop''
             else deviceType0);
          resolution = screen_width pf @ ''x'' @ screen_height pf
      in deviceType @ ''_'' @ resolution @ ''@'' @ devicePixelRatio pf @ ''x'')"

text \<open>
  \<^verbatim>\<open>loadSavedPosition\<close>: the body of the \<^verbatim>\<open>try\<close>, then the function with its \<^verbatim>\<open>catch\<close>.
  The result is how the promise settles: \<open>Inl\<close> a rejection, \<open>Inr\<close> the value.
\<close>

definition loadSavedPosition_try :: "plugin \<Rightarrow> world \<Rightarrow> tfile \<Rightarrow> error + jsval" where
  "loadSavedPosition_try p w f =
     bind (vault_read (vault w) f) (\<lambda>content.
     bind (JSON_parse content) (\<lambda>canvasData.
     bind (get_prop canvasData ''viewports'') (\<lambda>viewports.
     bind (get_prop_opt viewports (getViewportKey p)) (\<lambda>entry.
     Inr (if truthy entry then entry else VNull)))))"

definition loadSavedPosition :: "plugin \<Rightarrow> world \<Rightarrow> tfile \<Rightarrow> (error + jsval) \<times> world" where
  "loadSavedPosition p w f =
     (case loadSavedPosition_try p w f of
        Inl e \<Rightarrow>
          (Inr VNull,
           w\<lparr>console_errors :=
               console_errors w @ [''Failed to load canvas viewport position:'']\<rparr>)
      | Inr position \<Rightarrow> (Inr position, w))"

text \<open>
  \<^verbatim>\<open>saveCurrentPosition\<close>. The assignment \<^verbatim>\<open>canvasData.viewports[viewportKey] = position\<close>
  changes the object that \<^verbatim>\<open>canvasData.viewports\<close> refers to; with values instead of
  references, the changed object is stored back under \<^verbatim>\<open>viewports\<close>.
\<close>

definition position_of :: "canvas \<Rightarrow> jsval" where
  "position_of c = VObj [(''tx'', tx c), (''ty'', ty c), (''tZoom'', tZoom c)]"

definition saveCurrentPosition_try :: "plugin \<Rightarrow> world \<Rightarrow> tfile \<Rightarrow> canvas \<Rightarrow> error + world" where
  "saveCurrentPosition_try p w f c =
     bind (vault_read (vault w) f) (\<lambda>content.
     bind (JSON_parse content) (\<lambda>canvasData.
     bind (get_prop canvasData ''viewports'') (\<lambda>viewports0.
     bind (if \<not> truthy viewports0 then set_prop canvasData ''viewports'' (VObj [])
           else Inr canvasData) (\<lambda>canvasData1.
     bind (get_prop canvasData1 ''viewports'') (\<lambda>viewports.
     bind (set_prop viewports (getViewportKey p) (position_of c)) (\<lambda>viewports'.
     bind (set_prop canvasData1 ''viewports'' viewports') (\<lambda>canvasData2.
     bind (vault_modify (vault w) f (JSON_stringify canvasData2)) (\<lambda>vt.
     Inr (w\<lparr>vault := vt,
            notices := notices w @ [''Canvas viewport position saved'']\<rparr>)))))))))"

definition saveCurrentPosition :: "plugin \<Rightarrow> world \<Rightarrow> canvas_view option \<Rightarrow> world" where
  "saveCurrentPosition p w view =
     (case view of
        None \<Rightarrow> w
      | Some v \<Rightarrow>
          (case canvas v of
             None \<Rightarrow> w
           | Some c \<Rightarrow>
               (case saveCurrentPosition_try p w (file v) c of
                  Inl e \<Rightarrow>
                    w\<lparr>notices := notices w @ [''Failed to save viewport position''],
                      console_errors :=
                        console_errors w @ [''Failed to save canvas viewport position:'']\<rparr>
                | Inr w' \<Rightarrow> w')))"

text \<open>\<^verbatim>\<open>deleteSavedPosition\<close>, with the same storing back after \<^verbatim>\<open>delete\<close>.\<close>

definition deleteSavedPosition_try :: "plugin \<Rightarrow> world \<Rightarrow> tfile \<Rightarrow> error + bool \<times> world" where
  "deleteSavedPosition_try p w f =
     bind (vault_read (vault w) f) (\<lambda>content.
     bind (JSON_parse content) (\<lambda>canvasData.
     bind (get_prop canvasData ''viewports'') (\<lambda>viewports.
     bind (get_prop_opt viewports (getViewportKey p)) (\<lambda>entry.
     if \<not> truthy entry then Inr (False, w)
     else
       bind (delete_prop viewports (getViewportKey p)) (\<lambda>viewports'.
       bind (set_prop canvasData ''viewports'' viewports') (\<lambda>canvasData1.
       bind (keys_length viewports') (\<lambda>n.
       bind (if n = 0 then delete_prop canvasData1 ''viewports'' else Inr canvasData1)
         (\<lambda>canvasData2.
       bind (vault_modify (vault w) f (JSON_stringify canvasData2)) (\<lambda>vt.
       Inr (True, w\<lparr>vault := vt\<rparr>))))))))))"

definition deleteSavedPosition :: "plugin \<Rightarrow> world \<Rightarrow> canvas_view option \<Rightarrow> bool \<times> world" where
  "deleteSavedPosition p w view =
     (case view of
        None \<Rightarrow> (False, w)
      | Some v \<Rightarrow>
          (case deleteSavedPosition_try p w (file v) of
             Inl e \<Rightarrow>
               (False,
                w\<lparr>console_errors :=
                    console_errors w @ [''Failed to delete canvas viewport position:'']\<rparr>)
           | Inr r \<Rightarrow> r))"

text \<open>
  \<^verbatim>\<open>restoreViewport\<close>. \<open>later\<close> is the list of canvas leaves the workspace reports after
  the delay of 100 ms. The \<^verbatim>\<open>try\<close> encloses the call of \<^verbatim>\<open>requestAnimationFrame\<close>, which
  only queues the callback and returns; \<open>frame_callback\<close> is the callback, run by the host
  at the next frame, and its result is what reaches the host's frame dispatcher.
\<close>

definition requestAnimationFrame :: "world \<Rightarrow> frame \<Rightarrow> error + world" where
  "requestAnimationFrame w fr = Inr (w\<lparr>frames := frames w @ [fr]\<rparr>)"

definition restoreViewport :: "plugin \<Rightarrow> canvas_view list \<Rightarrow> world \<Rightarrow> tfile \<Rightarrow> (error + unit) \<times> world" where
  "restoreViewport p later w f =
     (case loadSavedPosition p w f of
        (Inl e, w1) \<Rightarrow> (Inl e, w1)
      | (Inr position, w1) \<Rightarrow>
          if \<not> truthy position
          then (Inr (), w1\<lparr>notices := notices w1 @ [''No saved viewport position found'']\<rparr>)
          else
            (case later of
               [] \<Rightarrow> (Inr (), w1)
             | canvasView # rest \<Rightarrow>
                 (case canvas canvasView of
                    None \<Rightarrow> (Inr (), w1)
                  | Some c \<Rightarrow>
                      if tZoom c = VUndefined then (Inr (), w1)
                      else
                        (case get_prop position ''tZoom'' of
                           Inl e \<Rightarrow> (Inl e, w1)
                         | Inr target \<Rightarrow>
                             (case requestAnimationFrame w1
                                     \<lparr>frame_canvas = c,
                                      frame_zoomDelta = Diff target (tZoom c),
                                      frame_position = position\<rparr> of
                                Inl e \<Rightarrow>
                                  (Inr (),
                                   w1\<lparr>notices := notices w1 @ [''Failed to restore viewport''],
                                      console_errors :=
                                        console_errors w1 @ [''Failed to restore viewport:'']\<rparr>)
                              | Inr w2 \<Rightarrow> (Inr (), w2))))))"

definition call_method :: "canvas \<Rightarrow> string \<Rightarrow> arg list \<Rightarrow> error + canvas" where
  "call_method c m args =
     (if m \<in> set (methods c) then Inr (c\<lparr>calls := calls c @ [Call m args]\<rparr>)
      else Inl TypeError)"

definition frame_callback :: "world \<Rightarrow> frame \<Rightarrow> error + canvas \<times> world" where
  "frame_callback w fr =
     bind (call_method (frame_canvas fr) ''zoomBy'' [frame_zoomDelta fr]) (\<lambda>c1.
     bind (get_prop (frame_position fr) ''tx'') (\<lambda>x.
     bind (get_prop (frame_position fr) ''ty'') (\<lambda>y.
     bind (call_method c1 ''panTo'' [Val x, Val y]) (\<lambda>c2.
     bind (call_method c2 ''markViewportChanged'' []) (\<lambda>c3.
     bind (call_method c3 ''requestFrame'' []) (\<lambda>c4.
     Inr (c4, w\<lparr>notices := notices w @ [''Canvas viewport restored'']\<rparr>)))))))"

text \<open>
  The handler of \<^verbatim>\<open>file-open\<close>. \<open>leaves\<close> is the list of canvas leaves at the event. The
  outcome says which branch was taken: \<open>Skipped\<close> for the early return, \<open>Restored\<close> when
  \<^verbatim>\<open>restoreViewport\<close> was called.
\<close>

datatype outcome = Skipped | Restored

definition file_open ::
  "plugin \<Rightarrow> canvas_view list \<Rightarrow> canvas_view list \<Rightarrow> world \<Rightarrow> tfile option
     \<Rightarrow> plugin \<times> outcome \<times> (error + unit) \<times> world" where
  "file_open p leaves later w activated =
     (let wasAlreadyOpen =
            (case activated of
               None \<Rightarrow> False
             | Some f \<Rightarrow> extension f = ''canvas'' \<and> path f \<in> set (openCanvasFiles p));
          p' = p\<lparr>openCanvasFiles := map (\<lambda>leaf. path (file leaf)) leaves\<rparr>
      in case activated of
           None \<Rightarrow> (p', Skipped, Inr (), w)
         | Some f \<Rightarrow>
             if extension f \<noteq> ''canvas'' \<or> wasAlreadyOpen then (p', Skipped, Inr (), w)
             else (p', Restored, restoreViewport p' later w f))"

definition onunload :: "plugin \<Rightarrow> plugin" where
  "onunload p = p\<lparr>openCanvasFiles := []\<rparr>"

section \<open>The effect of the store on the JSON document\<close>

text \<open>
  The members of a document as the claims speak of them: \<open>jfield j k\<close> is the top-level
  field \<open>k\<close> of the document \<open>j\<close> (none unless \<open>j\<close> is an object that has it), and
  \<open>jentry j K\<close> is the entry \<^verbatim>\<open>viewports[K]\<close>.
\<close>

fun jfield :: "json \<Rightarrow> string \<Rightarrow> json option" where
  "jfield (JObj ps) k = map_of ps k"
| "jfield j k = None"

definition jentry :: "json \<Rightarrow> string \<Rightarrow> json option" where
  "jentry j K = (case jfield j ''viewports'' of None \<Rightarrow> None | Some vp \<Rightarrow> jfield vp K)"

text \<open>The JSON values that are falsy once parsed: \<^verbatim>\<open>null\<close>, \<^verbatim>\<open>false\<close>, \<^verbatim>\<open>0\<close> and \<^verbatim>\<open>""\<close>.\<close>

definition falsy_json :: "json \<Rightarrow> bool" where
  "falsy_json j = (j = JNull \<or> j = JBool False \<or> j = JNum 0 \<or> j = JStr [])"

text \<open>The record that \<^verbatim>\<open>JSON.stringify\<close> writes for the position of a canvas.\<close>

definition position_json :: "canvas \<Rightarrow> json" where
  "position_json c =
     JObj (keep_defined
       [(''tx'', to_json (tx c)), (''ty'', to_json (ty c)), (''tZoom'', to_json (tZoom c))])"

text \<open>
  \<open>saved_doc K r j\<close> describes the document that save writes when the file holds \<open>j\<close>,
  the key is \<open>K\<close> and the record is \<open>r\<close>; \<open>None\<close> when save raises before it writes.
  \<open>deleted_doc K j\<close> describes the document that delete writes; \<open>None\<close> when it finds no
  truthy entry. What was in the document is written as \<open>reparse\<close> gives it. Both are
  descriptions for the proofs; the lemmas \<open>saveCurrentPosition_try_doc\<close> and
  \<open>deleteSavedPosition_try_doc\<close> show that the program computes them.
\<close>

definition reparse_all :: "(string \<times> json) list \<Rightarrow> (string \<times> json) list" where
  "reparse_all ps = map (map_prod id reparse) ps"

fun saved_viewports :: "string \<Rightarrow> json \<Rightarrow> json \<Rightarrow> json option" where
  "saved_viewports K r (JObj qs) = Some (JObj (AList.update K r (reparse_all qs)))"
| "saved_viewports K r (JArr ys) = Some (JArr (map reparse ys))"
| "saved_viewports K r vp = None"

fun saved_doc :: "string \<Rightarrow> json \<Rightarrow> json \<Rightarrow> json option" where
  "saved_doc K r (JObj ps) =
     (case map_of ps ''viewports'' of
        None \<Rightarrow> Some (JObj (AList.update ''viewports'' (JObj [(K, r)]) (reparse_all ps)))
      | Some vp \<Rightarrow>
          if falsy_json vp
          then Some (JObj (AList.update ''viewports'' (JObj [(K, r)]) (reparse_all ps)))
          else map_option (\<lambda>vp'. JObj (AList.update ''viewports'' vp' (reparse_all ps)))
                 (saved_viewports K r vp))"
| "saved_doc K r (JArr xs) = Some (JArr (map reparse xs))"
| "saved_doc K r j = None"

fun deleted_doc :: "string \<Rightarrow> json \<Rightarrow> json option" where
  "deleted_doc K (JObj ps) =
     (case map_of ps ''viewports'' of
        Some (JObj qs) \<Rightarrow>
          (case map_of qs K of
             None \<Rightarrow> None
           | Some e \<Rightarrow>
               if falsy_json e then None
               else if AList.delete K qs = []
               then Some (JObj (AList.delete ''viewports'' (reparse_all ps)))
               else Some (JObj (AList.update ''viewports''
                                 (JObj (AList.delete K (reparse_all qs))) (reparse_all ps))))
      | _ \<Rightarrow> None)"
| "deleted_doc K j = None"

text \<open>The vault after a write of \<open>c\<close> to the file at \<open>q\<close>.\<close>

definition written :: "vault \<Rightarrow> string \<Rightarrow> content \<Rightarrow> vault" where
  "written vt q c = vt\<lparr>files := (files vt)(q \<mapsto> c), writes := writes vt @ [(q, c)]\<rparr>"

text \<open>
  The documents in which save can store an entry: a JSON object whose \<^verbatim>\<open>viewports\<close> field
  is absent, falsy or itself an object.
\<close>

fun is_object :: "json \<Rightarrow> bool" where
  "is_object (JObj ps) = True"
| "is_object j = False"

definition room_for_viewports :: "json \<Rightarrow> bool" where
  "room_for_viewports j =
     (is_object j \<and>
      (case jfield j ''viewports'' of
         None \<Rightarrow> True
       | Some vp \<Rightarrow> falsy_json vp \<or> is_object vp))"

text \<open>The world after a \<^verbatim>\<open>catch\<close> of delete, and after a \<^verbatim>\<open>catch\<close> of save.\<close>

definition delete_failed :: "world \<Rightarrow> world" where
  "delete_failed w =
     w\<lparr>console_errors := console_errors w @ [''Failed to delete canvas viewport position:'']\<rparr>"

definition save_failed :: "world \<Rightarrow> world" where
  "save_failed w =
     w\<lparr>notices := notices w @ [''Failed to save viewport position''],
       console_errors := console_errors w @ [''Failed to save canvas viewport position:'']\<rparr>"

section \<open>Example inputs\<close>

definition ex_file :: tfile where
  "ex_file = \<lparr>path = ''A.canvas'', extension = ''canvas''\<rparr>"

definition ex_file_B :: tfile where
  "ex_file_B = \<lparr>path = ''B.canvas'', extension = ''canvas''\<rparr>"

definition ex_note :: tfile where
  "ex_note = \<lparr>path = ''Note.md'', extension = ''md''\<rparr>"

definition ex_plugin :: plugin where
  "ex_plugin =
     \<lparr>openCanvasFiles = [''A.canvas''],
      currentDevice = ''MacOS_Desktop_1920x1080@2x'',
      settings = \<lparr>debugMode = False, useGlobalViewport = True\<rparr>\<rparr>"

definition ex_canvas :: canvas where
  "ex_canvas =
     \<lparr>tx = VNum (Finite 10), ty = VNum (Finite 20), tZoom = VNum (Finite (3 / 2)),
      methods = [''zoomBy'', ''panTo'', ''markViewportChanged'', ''requestFrame''],
      calls = []\<rparr>"

definition ex_view :: canvas_view where
  "ex_view = \<lparr>file = ex_file, canvas = Some ex_canvas\<rparr>"

definition ex_view_B :: canvas_view where
  "ex_view_B = \<lparr>file = ex_file_B, canvas = Some ex_canvas\<rparr>"

text \<open>A world whose vault holds the one file \<^verbatim>\<open>A.canvas\<close>, with the given content.\<close>

definition world_with :: "content \<Rightarrow> world" where
  "world_with c =
     \<lparr>vault = \<lparr>files = [''A.canvas'' \<mapsto> c], readonly = [], writes = []\<rparr>,
      notices = [], console_errors = [], frames = []\<rparr>"

definition ex_nodes :: "string \<times> json" where
  "ex_nodes = (''nodes'', JArr [JObj [(''id'', JStr ''n1'')]])"

definition ex_record :: json where
  "ex_record = JObj [(''tx'', JNum 10), (''ty'', JNum 20), (''tZoom'', JNum (3 / 2))]"

text \<open>The example document with the entry \<open>e\<close> under the key \<^verbatim>\<open>global\<close>.\<close>

definition doc_with_entry :: "json \<Rightarrow> json" where
  "doc_with_entry e = JObj [ex_nodes, (''viewports'', JObj [(''global'', e)])]"


text \<open>
  A live canvas at zoom 1 that has the method of its declared interface,
  \<^verbatim>\<open>requestFrame\<close>, and not \<^verbatim>\<open>zoomBy\<close>; and the frame callback that \<^verbatim>\<open>restoreViewport\<close>
  queues for it when the saved record is \<open>ex_record\<close>.
\<close>

definition ex_bare_canvas :: canvas where
  "ex_bare_canvas =
     \<lparr>tx = VNum (Finite 0), ty = VNum (Finite 0), tZoom = VNum (Finite 1),
      methods = [''requestFrame''], calls = []\<rparr>"

definition ex_frame :: "canvas \<Rightarrow> frame" where
  "ex_frame c =
     \<lparr>frame_canvas = c,
      frame_zoomDelta = Diff (VNum (Finite (3 / 2))) (tZoom c),
      frame_position =
        VObj [(''tx'', VNum (Finite 10)), (''ty'', VNum (Finite 20)),
              (''tZoom'', VNum (Finite (3 / 2)))]\<rparr>"

section \<open>Lemmas: parsing what was written, and what the store computes\<close>

subsection \<open>Stringify after parse\<close>

lemma keep_defined_Nil: "keep_defined [] = []"
  by (simp add: keep_defined_def)

lemma keep_defined_Cons:
  "keep_defined ((k, x) # ps) = (case x of None \<Rightarrow> keep_defined ps | Some j \<Rightarrow> (k, j) # keep_defined ps)"
  by (cases x) (simp_all add: keep_defined_def)

lemma infinity_not_finite: "infinity s \<noteq> Finite r" "infinity s \<noteq> NaN"
  by (cases s; simp)+

lemma to_json_infinity: "to_json (VNum (infinity s)) = Some JNull"
  by (cases s) simp_all

lemma keep_defined_Some:
  "keep_defined (map (map_prod id (\<lambda>x. Some (g x))) ps) = map (map_prod id g) ps"
  by (induction ps) (auto simp: keep_defined_Cons keep_defined_Nil)

lemma to_of_json: "to_json (of_json j) = Some (reparse j)"
proof (induction j)
  case (JHuge s)
  then show ?case by (simp add: to_json_infinity del: to_json.simps)
next
  case (JArr xs)
  then have "map (\<lambda>x. null_if_undefined (to_json (of_json x))) xs = map reparse xs"
    by (induction xs) (auto simp: null_if_undefined_def)
  then show ?case by (simp add: comp_def)
next
  case (JObj ps)
  have eq: "map (map_prod id to_json \<circ> map_prod id of_json) ps
              = map (map_prod id (\<lambda>x. Some (reparse x))) ps"
  proof (rule map_cong[OF refl])
    fix p assume mem: "p \<in> set ps"
    obtain k v where p: "p = (k, v)" by (cases p)
    have "to_json (of_json v) = Some (reparse v)"
      using JObj[of p v] mem p by simp
    then show "(map_prod id to_json \<circ> map_prod id of_json) p
                 = map_prod id (\<lambda>x. Some (reparse x)) p"
      using p by simp
  qed
  have "to_json (of_json (JObj ps)) =
      Some (JObj (keep_defined (map (map_prod id to_json \<circ> map_prod id of_json) ps)))"
    by simp
  then show ?case
    unfolding eq by (simp only: keep_defined_Some reparse.simps)
qed simp_all

lemma to_of_json_comp:
  "map_prod id to_json \<circ> map_prod id of_json = map_prod id (\<lambda>x. Some (reparse x))"
  by (auto simp: fun_eq_iff to_of_json)




lemma map_of_reparse_all: "map_of (reparse_all ps) k = map_option reparse (map_of ps k)"
  by (induction ps) (auto simp: reparse_all_def)

lemma delete_reparse_all: "AList.delete k (reparse_all ps) = reparse_all (AList.delete k ps)"
  by (induction ps) (auto simp: reparse_all_def)

lemma reparse_all_Nil: "(reparse_all ps = []) = (ps = [])"
  by (simp add: reparse_all_def)

lemma truthy_of_json: "truthy (of_json j) = (\<not> falsy_json j)"
  by (cases j) (auto simp: falsy_json_def infinity_not_finite)

lemma own_of_json:
  "own (map (map_prod id of_json) ps) k = (case map_of ps k of None \<Rightarrow> VUndefined | Some x \<Rightarrow> of_json x)"
  by (induction ps) (auto simp: own_def)

lemma to_json_update:
  "to_json x = Some jx \<Longrightarrow>
   keep_defined (map (map_prod id to_json) (AList.update k x (map (map_prod id of_json) ps)))
     = AList.update k jx (reparse_all ps)"
  by (induction ps)
     (auto simp: keep_defined_Cons keep_defined_Nil to_of_json to_of_json_comp keep_defined_Some
        reparse_all_def)

lemma to_json_delete:
  "keep_defined (map (map_prod id to_json) (AList.delete k (map (map_prod id of_json) ps)))
     = AList.delete k (reparse_all ps)"
  by (induction ps) (auto simp: keep_defined_Cons keep_defined_Nil to_of_json reparse_all_def)

lemma delete_of_json_Nil:
  "(AList.delete k (map (map_prod id of_json) ps) = []) = (AList.delete k ps = [])"
  by (induction ps) auto

lemma map_to_of_json: "map null_if_undefined (map to_json (map of_json xs)) = map reparse xs"
  by (induction xs) (auto simp: null_if_undefined_def to_of_json)

subsection \<open>Load, save and delete on a well-formed document\<close>

lemma bind_simps: "bind (Inl e) g = Inl e" "bind (Inr x) g = g x"
  by (simp_all add: bind_def)

lemma own_Nil: "own [] k = VUndefined"
  by (simp add: own_def)

lemma own_update: "own (AList.update k v al) k' = (if k' = k then v else own al k')"
  by (simp add: own_def update_conv')

lemma get_prop_of_json:
  "get_prop (of_json j) k =
     (if j = JNull then Inl TypeError
      else Inr (case jfield j k of None \<Rightarrow> VUndefined | Some x \<Rightarrow> of_json x))"
  by (cases j) (simp_all add: own_of_json own_Nil)

lemma get_prop_opt_of_json:
  "get_prop_opt (of_json j) k =
     Inr (case jfield j k of None \<Rightarrow> VUndefined | Some x \<Rightarrow> of_json x)"
  by (cases j) (simp_all add: own_of_json own_Nil)

lemma vault_read_doc: "files (vault w) (path f) = Some c \<Longrightarrow> vault_read (vault w) f = Inr c"
  by (simp add: vault_read_def)

lemma loadSavedPosition_try_doc:
  assumes "files (vault w) (path f) = Some (Doc j)"
  shows "loadSavedPosition_try p w f =
     (if j = JNull then Inl TypeError
      else Inr (case jentry j (getViewportKey p) of
                  None \<Rightarrow> VNull
                | Some e \<Rightarrow> if falsy_json e then VNull else of_json e))"
proof (cases "jfield j ''viewports''")
  case None
  then show ?thesis
    using assms
    by (simp add: loadSavedPosition_try_def vault_read_doc JSON_parse_def bind_simps
        get_prop_of_json jentry_def)
next
  case (Some vp)
  then show ?thesis
    using assms
    by (simp add: loadSavedPosition_try_def vault_read_doc JSON_parse_def bind_simps
        get_prop_of_json get_prop_opt_of_json jentry_def truthy_of_json split: option.splits)
qed

lemma to_json_position: "to_json (position_of c) = Some (position_json c)"
  by (simp add: position_of_def position_json_def)

lemma vault_modify_doc:
  "files vt (path f) = Some c0 \<Longrightarrow>
   vault_modify vt f (Some c) =
     (if path f \<in> set (readonly vt) then Inl IOError else Inr (written vt (path f) c))"
  by (simp add: vault_modify_def written_def)

lemma own_Cons: "own ((k', v) # ps) k = (if k' = k then v else own ps k)"
  by (simp add: own_def)

lemma map_to_of_json_comp:
  "map (null_if_undefined \<circ> (to_json \<circ> of_json)) xs = map reparse xs"
  by (induction xs) (auto simp: null_if_undefined_def to_of_json)

lemmas save_unfold = own_Cons map_to_of_json_comp saveCurrentPosition_try_def vault_read_doc JSON_parse_def bind_simps
  get_prop_of_json JSON_stringify_def vault_modify_doc own_update own_Nil own_of_json
  to_json_position to_json_update keep_defined_Cons keep_defined_Nil map_to_of_json
  truthy_of_json

lemma saveCurrentPosition_try_doc:
  assumes "files (vault w) (path f) = Some (Doc j)"
  shows "saveCurrentPosition_try p w f c =
     (case saved_doc (getViewportKey p) (position_json c) j of
        None \<Rightarrow> Inl TypeError
      | Some j' \<Rightarrow>
          if path f \<in> set (readonly (vault w)) then Inl IOError
          else Inr (w\<lparr>vault := written (vault w) (path f) (Doc j'),
                      notices := notices w @ [''Canvas viewport position saved'']\<rparr>))"
proof (cases j)
  case JNull
  then show ?thesis using assms by (simp add: save_unfold)
next
  case (JBool b)
  then show ?thesis using assms by (simp add: save_unfold)
next
  case (JNum r)
  then show ?thesis using assms by (simp add: save_unfold)
next
  case (JHuge s)
  then show ?thesis using assms by (simp add: save_unfold)
next
  case (JStr s)
  then show ?thesis using assms by (simp add: save_unfold)
next
  case (JArr xs)
  then show ?thesis using assms by (simp add: save_unfold)
next
  case (JObj ps)
  show ?thesis
  proof (cases "map_of ps ''viewports''")
    case None
    then show ?thesis using assms JObj by (simp add: save_unfold)
  next
    case (Some vp)
    show ?thesis
    proof (cases "falsy_json vp")
      case True
      then show ?thesis using assms JObj Some by (simp add: save_unfold)
    next
      case False
      then show ?thesis using assms JObj Some
        by (cases vp) (simp_all add: save_unfold falsy_json_def infinity_not_finite)
    qed
  qed
qed

lemmas delete_unfold = deleteSavedPosition_try_def vault_read_doc JSON_parse_def bind_simps
  get_prop_of_json get_prop_opt_of_json JSON_stringify_def vault_modify_doc own_update own_Nil
  own_of_json own_Cons to_json_update to_json_delete keep_defined_Cons keep_defined_Nil
  map_to_of_json map_to_of_json_comp truthy_of_json delete_of_json_Nil delete_update_same

lemma deleteSavedPosition_try_doc:
  assumes "files (vault w) (path f) = Some (Doc j)"
  shows "deleteSavedPosition_try p w f =
     (if j = JNull then Inl TypeError
      else case deleted_doc (getViewportKey p) j of
             None \<Rightarrow> Inr (False, w)
           | Some j' \<Rightarrow>
               if path f \<in> set (readonly (vault w)) then Inl IOError
               else Inr (True, w\<lparr>vault := written (vault w) (path f) (Doc j')\<rparr>))"
proof (cases j)
  case JNull
  then show ?thesis using assms by (simp add: delete_unfold)
next
  case (JBool b)
  then show ?thesis using assms by (simp add: delete_unfold)
next
  case (JNum r)
  then show ?thesis using assms by (simp add: delete_unfold)
next
  case (JHuge s)
  then show ?thesis using assms by (simp add: delete_unfold)
next
  case (JStr s)
  then show ?thesis using assms by (simp add: delete_unfold)
next
  case (JArr xs)
  then show ?thesis using assms by (simp add: delete_unfold)
next
  case (JObj ps)
  show ?thesis
  proof (cases "map_of ps ''viewports''")
    case None
    then show ?thesis using assms JObj by (simp add: delete_unfold)
  next
    case (Some vp)
    show ?thesis
    proof (cases vp)
      case (JObj qs)
      show ?thesis
      proof (cases "map_of qs (getViewportKey p)")
        case None
        then show ?thesis using assms \<open>j = JObj ps\<close> Some JObj by (simp add: delete_unfold)
      next
        case (Some e)
        then show ?thesis using assms \<open>j = JObj ps\<close> \<open>map_of ps ''viewports'' = Some vp\<close> JObj
          by (simp add: delete_unfold)
      qed
    qed (use assms \<open>j = JObj ps\<close> Some in \<open>simp_all add: delete_unfold\<close>)
  qed
qed

subsection \<open>Load on any file\<close>

lemma bind_eq_Inr: "(bind m g = Inr y) = (\<exists>x. m = Inr x \<and> g x = Inr y)"
  by (cases m) (simp_all add: bind_def)

lemma loadSavedPosition_try_value:
  "loadSavedPosition_try p w f = Inr v \<Longrightarrow> v = VNull \<or> truthy v"
  by (auto simp: loadSavedPosition_try_def bind_eq_Inr split: if_splits)

lemma loadSavedPosition_try_missing:
  "files (vault w) (path f) = None \<Longrightarrow> loadSavedPosition_try p w f = Inl IOError"
  by (simp add: loadSavedPosition_try_def vault_read_def bind_simps)

lemma loadSavedPosition_try_malformed:
  "files (vault w) (path f) = Some Malformed \<Longrightarrow>
   loadSavedPosition_try p w f = Inl SyntaxError"
  by (simp add: loadSavedPosition_try_def vault_read_def JSON_parse_def bind_simps)

subsection \<open>Delete on any file\<close>

lemma deleteSavedPosition_cases:
  "deleteSavedPosition p w (Some v) =
     (case files (vault w) (path (file v)) of
        None \<Rightarrow> (False, delete_failed w)
      | Some Malformed \<Rightarrow> (False, delete_failed w)
      | Some (Doc j) \<Rightarrow>
          if j = JNull then (False, delete_failed w)
          else (case deleted_doc (getViewportKey p) j of
                  None \<Rightarrow> (False, w)
                | Some j' \<Rightarrow>
                    if path (file v) \<in> set (readonly (vault w)) then (False, delete_failed w)
                    else (True, w\<lparr>vault := written (vault w) (path (file v)) (Doc j')\<rparr>)))"
proof (cases "files (vault w) (path (file v))")
  case None
  then show ?thesis
    by (simp add: deleteSavedPosition_def deleteSavedPosition_try_def vault_read_def bind_simps
        delete_failed_def)
next
  case (Some c)
  show ?thesis
  proof (cases c)
    case Malformed
    then show ?thesis using Some
      by (simp add: deleteSavedPosition_def deleteSavedPosition_try_def vault_read_def
          JSON_parse_def bind_simps delete_failed_def)
  next
    case (Doc j)
    then show ?thesis using Some deleteSavedPosition_try_doc[of w "file v" j p]
      by (simp add: deleteSavedPosition_def delete_failed_def split: option.splits)
  qed
qed

lemma vault_delete_failed: "vault (delete_failed w) = vault w"
  by (simp add: delete_failed_def)

lemma deleted_doc_again:
  "deleted_doc K j = Some j' \<Longrightarrow> j' \<noteq> JNull \<and> deleted_doc K j' = None"
  by (cases j) (auto simp: update_conv' delete_conv' split: option.splits json.splits if_splits)

lemma deleted_doc_absent: "jentry j K = None \<Longrightarrow> deleted_doc K j = None"
  by (cases j) (auto simp: jentry_def split: option.splits json.splits)

lemma files_written: "files (written vt q c) q = Some c"
  by (simp add: written_def)

lemma deleteSavedPosition_False_vault:
  "\<not> fst (deleteSavedPosition p w view) \<Longrightarrow>
   vault (snd (deleteSavedPosition p w view)) = vault w"
proof (cases view)
  case None
  then show ?thesis by (simp add: deleteSavedPosition_def)
next
  case (Some v)
  assume "\<not> fst (deleteSavedPosition p w view)"
  then show ?thesis
    unfolding Some deleteSavedPosition_cases
    by (auto simp: vault_delete_failed split: option.splits content.splits if_splits)
qed

lemma deleteSavedPosition_fst_vault:
  "vault w1 = vault w2 \<Longrightarrow>
   fst (deleteSavedPosition p w1 view) = fst (deleteSavedPosition p w2 view)"
proof (cases view)
  case None
  then show ?thesis by (simp add: deleteSavedPosition_def)
next
  case (Some v)
  assume "vault w1 = vault w2"
  then show ?thesis
    unfolding Some deleteSavedPosition_cases
    by (simp split: option.splits content.splits)
qed

lemma deleteSavedPosition_twice:
  "fst (deleteSavedPosition p (snd (deleteSavedPosition p w view)) view) = False"
proof (cases view)
  case None
  then show ?thesis by (simp add: deleteSavedPosition_def)
next
  case (Some v)
  show ?thesis
  proof (cases "fst (deleteSavedPosition p w (Some v))")
    case False
    then have same: "vault (snd (deleteSavedPosition p w (Some v))) = vault w"
      by (rule deleteSavedPosition_False_vault)
    have "fst (deleteSavedPosition p (snd (deleteSavedPosition p w (Some v))) (Some v))
            = fst (deleteSavedPosition p w (Some v))"
      by (rule deleteSavedPosition_fst_vault[OF same])
    then show ?thesis using False Some by simp
  next
    case True
    then obtain j j' where
      j: "files (vault w) (path (file v)) = Some (Doc j)" "j \<noteq> JNull"
      and d: "deleted_doc (getViewportKey p) j = Some j'"
      and ro: "path (file v) \<notin> set (readonly (vault w))"
      and w1: "snd (deleteSavedPosition p w (Some v)) =
                 w\<lparr>vault := written (vault w) (path (file v)) (Doc j')\<rparr>"
      unfolding deleteSavedPosition_cases
      by (auto split: option.splits content.splits if_splits)
    show ?thesis
      unfolding Some w1
      using deleted_doc_again[OF d]
      by (simp add: deleteSavedPosition_cases files_written)
  qed
qed

subsection \<open>Save on any file, and what is written\<close>

lemma saved_viewports_nonempty: "saved_viewports K r vp \<noteq> Some (JObj [])"
  by (cases vp) simp_all

lemma saved_doc_nonempty:
  "saved_doc K r j = Some j' \<Longrightarrow> jfield j' ''viewports'' \<noteq> Some (JObj [])"
  using saved_viewports_nonempty
  by (cases j) (auto simp: update_conv' split: option.splits if_splits)

lemma deleted_doc_nonempty:
  "deleted_doc K j = Some j' \<Longrightarrow> jfield j' ''viewports'' \<noteq> Some (JObj [])"
  by (cases j)
     (auto simp: update_conv' delete_conv' delete_reparse_all reparse_all_Nil
           map_of_reparse_all split: option.splits json.splits if_splits)

lemma saveCurrentPosition_cases:
  "canvas v = Some c \<Longrightarrow>
   saveCurrentPosition p w (Some v) =
     (case files (vault w) (path (file v)) of
        None \<Rightarrow> save_failed w
      | Some Malformed \<Rightarrow> save_failed w
      | Some (Doc j) \<Rightarrow>
          (case saved_doc (getViewportKey p) (position_json c) j of
             None \<Rightarrow> save_failed w
           | Some j' \<Rightarrow>
               if path (file v) \<in> set (readonly (vault w)) then save_failed w
               else w\<lparr>vault := written (vault w) (path (file v)) (Doc j'),
                      notices := notices w @ [''Canvas viewport position saved'']\<rparr>))"
proof (cases "files (vault w) (path (file v))")
  case None
  assume "canvas v = Some c"
  then show ?thesis using None
    by (simp add: saveCurrentPosition_def saveCurrentPosition_try_def vault_read_def bind_simps
        save_failed_def)
next
  case (Some t)
  assume c: "canvas v = Some c"
  show ?thesis
  proof (cases t)
    case Malformed
    then show ?thesis using Some c
      by (simp add: saveCurrentPosition_def saveCurrentPosition_try_def vault_read_def
          JSON_parse_def bind_simps save_failed_def)
  next
    case (Doc j)
    then show ?thesis using Some c saveCurrentPosition_try_doc[of w "file v" j p c]
      by (simp add: saveCurrentPosition_def save_failed_def split: option.splits)
  qed
qed

lemma writes_written: "writes (written vt q c) = writes vt @ [(q, c)]"
  by (simp add: written_def)

lemma saveCurrentPosition_writes:
  "writes (vault (saveCurrentPosition p w view)) = writes (vault w)
   \<or> (\<exists>q j'. writes (vault (saveCurrentPosition p w view)) = writes (vault w) @ [(q, Doc j')]
          \<and> files (vault (saveCurrentPosition p w view)) q = Some (Doc j')
          \<and> jfield j' ''viewports'' \<noteq> Some (JObj []))"
proof (cases view)
  case None
  then show ?thesis by (simp add: saveCurrentPosition_def)
next
  case (Some v)
  show ?thesis
  proof (cases "canvas v")
    case None
    then show ?thesis using Some by (simp add: saveCurrentPosition_def)
  next
    case (Some c)
    show ?thesis
      using saved_doc_nonempty
      unfolding \<open>view = Some v\<close> saveCurrentPosition_cases[OF Some]
      by (auto simp: save_failed_def writes_written files_written
               split: option.splits content.splits)
  qed
qed

lemma deleteSavedPosition_writes:
  "writes (vault (snd (deleteSavedPosition p w view))) = writes (vault w)
   \<or> (\<exists>q j'. writes (vault (snd (deleteSavedPosition p w view)))
                 = writes (vault w) @ [(q, Doc j')]
          \<and> files (vault (snd (deleteSavedPosition p w view))) q = Some (Doc j')
          \<and> jfield j' ''viewports'' \<noteq> Some (JObj []))"
proof (cases view)
  case None
  then show ?thesis by (simp add: deleteSavedPosition_def)
next
  case (Some v)
  show ?thesis
    using deleted_doc_nonempty
    unfolding Some deleteSavedPosition_cases
    by (auto simp: delete_failed_def writes_written files_written
             split: option.splits content.splits)
qed

lemma saved_doc_entry:
  "room_for_viewports j \<Longrightarrow> \<exists>j'. saved_doc K r j = Some j' \<and> jentry j' K = Some r"
proof (cases j)
  case (JObj ps)
  assume r: "room_for_viewports j"
  show ?thesis
  proof (cases "map_of ps ''viewports''")
    case None
    then show ?thesis using JObj by (simp add: jentry_def update_conv')
  next
    case (Some vp)
    show ?thesis
    proof (cases "falsy_json vp")
      case True
      then show ?thesis using JObj Some by (simp add: jentry_def update_conv')
    next
      case False
      then obtain qs where "vp = JObj qs"
        using r JObj Some by (cases vp) (simp_all add: room_for_viewports_def)
      then show ?thesis using JObj Some False by (simp add: jentry_def update_conv')
    qed
  qed
qed (simp_all add: room_for_viewports_def)

lemma position_json_finite:
  "tx c = VNum (Finite a) \<Longrightarrow> ty c = VNum (Finite b) \<Longrightarrow> tZoom c = VNum (Finite z) \<Longrightarrow>
   position_json c = JObj [(''tx'', JNum a), (''ty'', JNum b), (''tZoom'', JNum z)]"
  by (simp add: position_json_def keep_defined_Cons keep_defined_Nil)

lemma saved_doc_not_null: "saved_doc K r j = Some j' \<Longrightarrow> j' \<noteq> JNull"
  by (cases j) (auto split: option.splits if_splits)

subsection \<open>What the written document keeps\<close>










subsection \<open>The viewport key, and restoring\<close>

text \<open>
  The key is \<^verbatim>\<open>global\<close> or the device identifier, and a device identifier built by
  \<^verbatim>\<open>getDeviceIdentifier\<close> contains \<^verbatim>\<open>@\<close>.
\<close>

lemma getDeviceIdentifier_has_at: "CHR ''@'' \<in> set (getDeviceIdentifier pf)"
  by (simp add: getDeviceIdentifier_def Let_def)

lemma getViewportKey_cases:
  "getViewportKey p = ''global'' \<or> getViewportKey p = currentDevice p"
  by (simp add: getViewportKey_def)

lemma get_prop_truthy: "truthy v \<Longrightarrow> \<exists>x. get_prop v k = Inr x"
  by (cases v) simp_all

lemma loadSavedPosition_resolves:
  "\<exists>v w'. loadSavedPosition p w f = (Inr v, w') \<and> (v = VNull \<or> truthy v)
      \<and> vault w' = vault w"
proof (cases "loadSavedPosition_try p w f")
  case (Inl e)
  then show ?thesis by (simp add: loadSavedPosition_def)
next
  case (Inr v)
  then show ?thesis
    using loadSavedPosition_try_value[OF Inr] by (simp add: loadSavedPosition_def)
qed

text \<open>
  \<^verbatim>\<open>restoreViewport\<close> itself always resolves and never changes the vault. Its \<^verbatim>\<open>catch\<close> is
  never entered, so it never shows the notice of a failed restore.
\<close>

lemma restoreViewport_resolves:
  "fst (restoreViewport p later w f) = Inr ()
   \<and> vault (snd (restoreViewport p later w f)) = vault w
   \<and> ''Failed to restore viewport'' \<notin> set (notices (snd (restoreViewport p later w f)))
        - set (notices w)"
proof -
  obtain v w' where l: "loadSavedPosition p w f = (Inr v, w')"
    and v: "v = VNull \<or> truthy v" and w': "vault w' = vault w"
    using loadSavedPosition_resolves by blast
  have n: "notices w' = notices w"
    using l by (auto simp: loadSavedPosition_def split: sum.splits)
  show ?thesis
  proof (cases "truthy v")
    case False
    then show ?thesis using l w' n by (simp add: restoreViewport_def)
  next
    case True
    then obtain x where "get_prop v ''tZoom'' = Inr x"
      using get_prop_truthy by blast
    then show ?thesis using l w' n True
      by (simp add: restoreViewport_def requestAnimationFrame_def
               split: list.splits option.splits)
  qed
qed

subsection \<open>Unfolding for the examples\<close>

text \<open>
  The definitions of the example inputs, and those of the program, with which the
  simplifier runs the program on an example.
\<close>

lemmas ex_defs = ex_file_def ex_file_B_def ex_note_def ex_plugin_def ex_canvas_def ex_view_def
  ex_view_B_def world_with_def ex_nodes_def ex_record_def

lemmas run_defs = loadSavedPosition_def loadSavedPosition_try_def saveCurrentPosition_def
  saveCurrentPosition_try_def deleteSavedPosition_def deleteSavedPosition_try_def
  restoreViewport_def requestAnimationFrame_def frame_callback_def call_method_def
  vault_read_def vault_modify_def JSON_parse_def JSON_stringify_def bind_def own_def
  keep_defined_def null_if_undefined_def position_of_def
  getViewportKey_def jentry_def doc_with_entry_def

section \<open>The claims\<close>

subsection \<open>The handler of file-open\<close>

text \<open>
  C1. An activation restores the viewport exactly when the activated file is present, its
  extension is \<^verbatim>\<open>canvas\<close> and its path is not in the open-canvas list remembered so far.
  Then the handler's result is that of \<^verbatim>\<open>restoreViewport\<close> on the file; for a null file, a
  file of another extension or a path already in the list, nothing is restored and the
  world is left as it was.
\<close>

theorem file_open_restores_iff_first_open:
  "((fst (snd (file_open p leaves later w activated)) = Restored) =
      (\<exists>f. activated = Some f \<and> extension f = ''canvas'' \<and>
           path f \<notin> set (openCanvasFiles p)))
   \<and> (\<forall>f. activated = Some f \<and> extension f = ''canvas'' \<and>
           path f \<notin> set (openCanvasFiles p) \<longrightarrow>
          snd (snd (file_open p leaves later w activated)) =
            restoreViewport (p\<lparr>openCanvasFiles := map (\<lambda>leaf. path (file leaf)) leaves\<rparr>)
              later w f)
   \<and> (activated = None \<longrightarrow>
          snd (file_open p leaves later w activated) = (Skipped, Inr (), w))
   \<and> (\<forall>f. activated = Some f \<and>
           (extension f \<noteq> ''canvas'' \<or> path f \<in> set (openCanvasFiles p)) \<longrightarrow>
          snd (file_open p leaves later w activated) = (Skipped, Inr (), w))"
  by (cases activated) (auto simp: file_open_def Let_def)

theorem file_open_restores_iff_first_open_witness:
  "fst (snd (file_open ex_plugin [ex_view, ex_view_B] [ex_view_B]
         (world_with (Doc (JObj [ex_nodes]))) (Some ex_file_B))) = Restored
   \<and> path ex_file_B \<notin> set (openCanvasFiles ex_plugin)
   \<and> snd (file_open ex_plugin [ex_view] [ex_view]
         (world_with (Doc (JObj [ex_nodes]))) (Some ex_file))
       = (Skipped, Inr (), world_with (Doc (JObj [ex_nodes])))
   \<and> path ex_file \<in> set (openCanvasFiles ex_plugin)
   \<and> snd (file_open ex_plugin [ex_view] [ex_view]
         (world_with (Doc (JObj [ex_nodes]))) (Some ex_note))
       = (Skipped, Inr (), world_with (Doc (JObj [ex_nodes])))
   \<and> snd (file_open ex_plugin [ex_view] [ex_view]
         (world_with (Doc (JObj [ex_nodes]))) None)
       = (Skipped, Inr (), world_with (Doc (JObj [ex_nodes])))
   \<and> fst (snd (file_open (ex_plugin\<lparr>openCanvasFiles := [''B.canvas'']\<rparr>)
         [ex_view, ex_view_B] [ex_view] (world_with (Doc (JObj [ex_nodes])))
         (Some ex_file))) = Restored"
  using file_open_restores_iff_first_open
          [of ex_plugin "[ex_view, ex_view_B]" "[ex_view_B]"
              "world_with (Doc (JObj [ex_nodes]))" "Some ex_file_B"]
        file_open_restores_iff_first_open
          [of ex_plugin "[ex_view]" "[ex_view]" "world_with (Doc (JObj [ex_nodes]))"
              "Some ex_file"]
        file_open_restores_iff_first_open
          [of ex_plugin "[ex_view]" "[ex_view]" "world_with (Doc (JObj [ex_nodes]))"
              "Some ex_note"]
        file_open_restores_iff_first_open
          [of ex_plugin "[ex_view]" "[ex_view]" "world_with (Doc (JObj [ex_nodes]))" None]
        file_open_restores_iff_first_open
          [of "ex_plugin\<lparr>openCanvasFiles := [''B.canvas'']\<rparr>" "[ex_view, ex_view_B]"
              "[ex_view]" "world_with (Doc (JObj [ex_nodes]))" "Some ex_file"]
  by (simp add: ex_file_def ex_file_B_def ex_note_def ex_plugin_def)

text \<open>
  C8. Whatever the activation (a null file, a file that is not a canvas, a canvas already
  open or a first open), the handler leaves as the remembered list the paths of the
  canvas leaves open at the event, and changes nothing else of the plugin. For an
  activated canvas file the decision is taken on the list remembered before: it restores
  exactly when the path is not in that earlier list.
\<close>

theorem file_open_replaces_open_set:
  "openCanvasFiles (fst (file_open p leaves later w activated)) =
      map (\<lambda>leaf. path (file leaf)) leaves
   \<and> currentDevice (fst (file_open p leaves later w activated)) = currentDevice p
   \<and> settings (fst (file_open p leaves later w activated)) = settings p
   \<and> (\<forall>f. activated = Some f \<and> extension f = ''canvas'' \<longrightarrow>
          (fst (snd (file_open p leaves later w activated)) = Restored) =
            (path f \<notin> set (openCanvasFiles p)))"
  by (cases activated) (auto simp: file_open_def Let_def)

theorem file_open_replaces_open_set_witness:
  "openCanvasFiles (fst (file_open ex_plugin [ex_view_B] [ex_view_B]
       (world_with (Doc (JObj [ex_nodes]))) None)) = [''B.canvas'']
   \<and> openCanvasFiles (fst (file_open ex_plugin [] []
       (world_with (Doc (JObj [ex_nodes]))) (Some ex_note))) = []
   \<and> openCanvasFiles (fst (file_open ex_plugin [ex_view_B] [ex_view_B]
       (world_with (Doc (JObj [ex_nodes]))) (Some ex_file))) = [''B.canvas'']
   \<and> fst (snd (file_open ex_plugin [ex_view_B] [ex_view_B]
       (world_with (Doc (JObj [ex_nodes]))) (Some ex_file))) \<noteq> Restored
   \<and> fst (snd (file_open
       (fst (file_open ex_plugin [ex_view_B] [ex_view_B]
          (world_with (Doc (JObj [ex_nodes]))) None))
       [ex_view, ex_view_B] [ex_view] (world_with (Doc (JObj [ex_nodes])))
       (Some ex_file))) = Restored"
  using file_open_replaces_open_set
          [of ex_plugin "[ex_view_B]" "[ex_view_B]" "world_with (Doc (JObj [ex_nodes]))" None]
        file_open_replaces_open_set
          [of ex_plugin "[]" "[]" "world_with (Doc (JObj [ex_nodes]))" "Some ex_note"]
        file_open_replaces_open_set
          [of ex_plugin "[ex_view_B]" "[ex_view_B]" "world_with (Doc (JObj [ex_nodes]))"
              "Some ex_file"]
        file_open_replaces_open_set
          [of "fst (file_open ex_plugin [ex_view_B] [ex_view_B]
                 (world_with (Doc (JObj [ex_nodes]))) None)"
              "[ex_view, ex_view_B]" "[ex_view]" "world_with (Doc (JObj [ex_nodes]))"
              "Some ex_file"]
  by (simp add: ex_file_def ex_file_B_def ex_note_def ex_plugin_def ex_view_B_def)

subsection \<open>Loading\<close>

text \<open>
  C7. \<^verbatim>\<open>loadSavedPosition\<close> never rejects: its promise always resolves, with \<^verbatim>\<open>null\<close>
  (absent) or with a truthy value, and it never changes the vault. It resolves with
  \<^verbatim>\<open>null\<close> when the file cannot be read, when its text is not JSON, and when the document
  has no entry \<^verbatim>\<open>viewports[K]\<close> for the viewport key (which covers a document that is
  \<^verbatim>\<open>null\<close>, one that is not an object and one without \<^verbatim>\<open>viewports\<close>).
\<close>

theorem loadSavedPosition_never_raises:
  "(\<exists>v. fst (loadSavedPosition p w f) = Inr v \<and> (v = VNull \<or> truthy v))
   \<and> vault (snd (loadSavedPosition p w f)) = vault w
   \<and> (files (vault w) (path f) = None \<longrightarrow> fst (loadSavedPosition p w f) = Inr VNull)
   \<and> (files (vault w) (path f) = Some Malformed \<longrightarrow>
        fst (loadSavedPosition p w f) = Inr VNull)
   \<and> (\<forall>j. files (vault w) (path f) = Some (Doc j) \<and> jentry j (getViewportKey p) = None \<longrightarrow>
        fst (loadSavedPosition p w f) = Inr VNull)"
proof (intro conjI allI impI)
  show "\<exists>v. fst (loadSavedPosition p w f) = Inr v \<and> (v = VNull \<or> truthy v)"
  proof (cases "loadSavedPosition_try p w f")
    case (Inl e)
    then show ?thesis by (simp add: loadSavedPosition_def)
  next
    case (Inr v)
    then show ?thesis
      using loadSavedPosition_try_value[OF Inr] by (simp add: loadSavedPosition_def)
  qed
  show "vault (snd (loadSavedPosition p w f)) = vault w"
    by (simp add: loadSavedPosition_def split: sum.splits)
  show "fst (loadSavedPosition p w f) = Inr VNull" if "files (vault w) (path f) = None"
    using loadSavedPosition_try_missing[OF that] by (simp add: loadSavedPosition_def)
  show "fst (loadSavedPosition p w f) = Inr VNull"
    if "files (vault w) (path f) = Some Malformed"
    using loadSavedPosition_try_malformed[OF that] by (simp add: loadSavedPosition_def)
  show "fst (loadSavedPosition p w f) = Inr VNull"
    if "files (vault w) (path f) = Some (Doc j) \<and> jentry j (getViewportKey p) = None" for j
    using that loadSavedPosition_try_doc[of w f j p]
    by (simp add: loadSavedPosition_def)
qed

theorem loadSavedPosition_never_raises_witness:
  "fst (loadSavedPosition ex_plugin (world_with Malformed) ex_file) = Inr VNull
   \<and> fst (loadSavedPosition ex_plugin (world_with (Doc (JObj [ex_nodes]))) ex_file_B)
       = Inr VNull
   \<and> fst (loadSavedPosition ex_plugin (world_with (Doc (JObj [ex_nodes]))) ex_file)
       = Inr VNull
   \<and> fst (loadSavedPosition ex_plugin (world_with (Doc JNull)) ex_file) = Inr VNull
   \<and> files (vault (world_with Malformed)) (path ex_file) = Some Malformed
   \<and> files (vault (world_with (Doc (JObj [ex_nodes])))) (path ex_file_B) = None
   \<and> jentry (JObj [ex_nodes]) (getViewportKey ex_plugin) = None
   \<and> jentry JNull (getViewportKey ex_plugin) = None"
  using loadSavedPosition_never_raises[of ex_plugin "world_with Malformed" ex_file]
        loadSavedPosition_never_raises
          [of ex_plugin "world_with (Doc (JObj [ex_nodes]))" ex_file_B]
        loadSavedPosition_never_raises
          [of ex_plugin "world_with (Doc (JObj [ex_nodes]))" ex_file]
        loadSavedPosition_never_raises[of ex_plugin "world_with (Doc JNull)" ex_file]
  by (simp add: ex_defs jentry_def)

text \<open>
  C10. When the document stores a value under \<^verbatim>\<open>viewports[K]\<close>, load returns \<^verbatim>\<open>null\<close> if
  that value is \<^verbatim>\<open>null\<close>, \<^verbatim>\<open>false\<close>, \<^verbatim>\<open>0\<close> or the empty string, and returns the value itself,
  whatever its shape, if it is truthy; the truthy values are exactly the others.
\<close>

theorem loadSavedPosition_truthiness:
  assumes "files (vault w) (path f) = Some (Doc j)"
      and "jentry j (getViewportKey p) = Some e"
  shows "(e = JNull \<or> e = JBool False \<or> e = JNum 0 \<or> e = JStr '''' \<longrightarrow>
            fst (loadSavedPosition p w f) = Inr VNull)
       \<and> (truthy (of_json e) \<longrightarrow> fst (loadSavedPosition p w f) = Inr (of_json e))
       \<and> truthy (of_json e) =
            (\<not> (e = JNull \<or> e = JBool False \<or> e = JNum 0 \<or> e = JStr ''''))"
proof -
  have "j \<noteq> JNull" using assms(2) by (auto simp: jentry_def)
  then show ?thesis
    using assms loadSavedPosition_try_doc[OF assms(1), of p]
    by (simp add: loadSavedPosition_def truthy_of_json falsy_json_def)
qed

theorem loadSavedPosition_truthiness_witness:
  "fst (loadSavedPosition ex_plugin (world_with (Doc (doc_with_entry JNull))) ex_file)
     = Inr VNull
   \<and> fst (loadSavedPosition ex_plugin (world_with (Doc (doc_with_entry (JBool False))))
        ex_file) = Inr VNull
   \<and> fst (loadSavedPosition ex_plugin (world_with (Doc (doc_with_entry (JNum 0)))) ex_file)
       = Inr VNull
   \<and> fst (loadSavedPosition ex_plugin (world_with (Doc (doc_with_entry (JStr ''''))))
        ex_file) = Inr VNull
   \<and> fst (loadSavedPosition ex_plugin (world_with (Doc (doc_with_entry (JStr ''left''))))
        ex_file) = Inr (VStr ''left'')
   \<and> fst (loadSavedPosition ex_plugin (world_with (Doc (doc_with_entry (JNum 7)))) ex_file)
       = Inr (VNum (Finite 7))
   \<and> fst (loadSavedPosition ex_plugin (world_with (Doc (doc_with_entry (JArr []))))
        ex_file) = Inr (VArr [] [])
   \<and> jentry (doc_with_entry (JNum 0)) (getViewportKey ex_plugin) = Some (JNum 0)"
  using loadSavedPosition_truthiness
          [of "world_with (Doc (doc_with_entry JNull))" ex_file "doc_with_entry JNull"
              ex_plugin JNull]
        loadSavedPosition_truthiness
          [of "world_with (Doc (doc_with_entry (JBool False)))" ex_file
              "doc_with_entry (JBool False)" ex_plugin "JBool False"]
        loadSavedPosition_truthiness
          [of "world_with (Doc (doc_with_entry (JNum 0)))" ex_file
              "doc_with_entry (JNum 0)" ex_plugin "JNum 0"]
        loadSavedPosition_truthiness
          [of "world_with (Doc (doc_with_entry (JStr '''')))" ex_file
              "doc_with_entry (JStr '''')" ex_plugin "JStr ''''"]
        loadSavedPosition_truthiness
          [of "world_with (Doc (doc_with_entry (JStr ''left'')))" ex_file
              "doc_with_entry (JStr ''left'')" ex_plugin "JStr ''left''"]
        loadSavedPosition_truthiness
          [of "world_with (Doc (doc_with_entry (JNum 7)))" ex_file
              "doc_with_entry (JNum 7)" ex_plugin "JNum 7"]
        loadSavedPosition_truthiness
          [of "world_with (Doc (doc_with_entry (JArr [])))" ex_file
              "doc_with_entry (JArr [])" ex_plugin "JArr []"]
  by (simp add: ex_defs jentry_def doc_with_entry_def getViewportKey_def)

subsection \<open>Saving\<close>

text \<open>
  C2, as amended. Let the file be writable and hold a JSON object whose \<^verbatim>\<open>viewports\<close>
  field is absent, falsy or itself an object, and let the camera fields of the view's
  canvas be finite numbers. Then loading after saving returns exactly the record that
  save built from the canvas, under the same viewport key.
\<close>

theorem save_then_load_roundtrip:
  assumes "files (vault w) (path (file v)) = Some (Doc j)"
      and "room_for_viewports j"
      and "path (file v) \<notin> set (readonly (vault w))"
      and "canvas v = Some c"
      and "tx c = VNum (Finite a)" and "ty c = VNum (Finite b)" and "tZoom c = VNum (Finite z)"
  shows "fst (loadSavedPosition p (saveCurrentPosition p w (Some v)) (file v))
           = Inr (VObj [(''tx'', VNum (Finite a)), (''ty'', VNum (Finite b)),
                        (''tZoom'', VNum (Finite z))])
         \<and> position_of c = VObj [(''tx'', VNum (Finite a)), (''ty'', VNum (Finite b)),
                        (''tZoom'', VNum (Finite z))]"
proof -
  obtain j' where s: "saved_doc (getViewportKey p) (position_json c) j = Some j'"
    and e: "jentry j' (getViewportKey p) = Some (position_json c)"
    using saved_doc_entry[OF assms(2)] by blast
  let ?w = "saveCurrentPosition p w (Some v)"
  have f: "files (vault ?w) (path (file v)) = Some (Doc j')"
    using assms(1,3) s by (simp add: saveCurrentPosition_cases[OF assms(4)] files_written)
  have pj: "position_json c = JObj [(''tx'', JNum a), (''ty'', JNum b), (''tZoom'', JNum z)]"
    using assms(5-7) by (rule position_json_finite)
  have "loadSavedPosition_try p ?w (file v) = Inr (of_json (position_json c))"
    using loadSavedPosition_try_doc[OF f, of p] saved_doc_not_null[OF s] e
    by (simp add: pj falsy_json_def)
  then show ?thesis
    using assms(5-7) by (simp add: loadSavedPosition_def pj position_of_def)
qed

text \<open>
  The claim as stated fails for other well-formed documents. For the document \<^verbatim>\<open>null\<close>
  save raises inside its \<^verbatim>\<open>try\<close> and writes nothing, and load returns \<^verbatim>\<open>null\<close>. For
  \<^verbatim>\<open>{"nodes": ..., "viewports": []}\<close> the record becomes a named property of the array,
  which \<^verbatim>\<open>JSON.stringify\<close> leaves out: save reports success, and load returns \<^verbatim>\<open>null\<close>.
  It also fails for a record with a field that is not finite: \<^verbatim>\<open>JSON.stringify\<close> writes
  \<^verbatim>\<open>null\<close> for NaN, and load returns the record with \<^verbatim>\<open>tx: null\<close>.
\<close>

theorem save_then_load_counterexample:
  "fst (loadSavedPosition ex_plugin
          (saveCurrentPosition ex_plugin (world_with (Doc JNull)) (Some ex_view)) ex_file)
     = Inr VNull
   \<and> fst (loadSavedPosition ex_plugin
          (saveCurrentPosition ex_plugin
             (world_with (Doc (JObj [ex_nodes, (''viewports'', JArr [])]))) (Some ex_view))
          ex_file)
     = Inr VNull
   \<and> notices (saveCurrentPosition ex_plugin
             (world_with (Doc (JObj [ex_nodes, (''viewports'', JArr [])]))) (Some ex_view))
     = [''Canvas viewport position saved'']
   \<and> position_of ex_canvas
     = VObj [(''tx'', VNum (Finite 10)), (''ty'', VNum (Finite 20)),
             (''tZoom'', VNum (Finite (3 / 2)))]
   \<and> fst (loadSavedPosition ex_plugin
          (saveCurrentPosition ex_plugin (world_with (Doc (JObj [ex_nodes])))
             (Some (ex_view\<lparr>canvas := Some (ex_canvas\<lparr>tx := VNum NaN\<rparr>)\<rparr>)))
          ex_file)
     = Inr (VObj [(''tx'', VNull), (''ty'', VNum (Finite 20)),
                  (''tZoom'', VNum (Finite (3 / 2)))])
   \<and> position_of (ex_canvas\<lparr>tx := VNum NaN\<rparr>)
     = VObj [(''tx'', VNum NaN), (''ty'', VNum (Finite 20)),
             (''tZoom'', VNum (Finite (3 / 2)))]"
  by (simp add: ex_defs run_defs)

theorem save_then_load_roundtrip_witness:
  "fst (loadSavedPosition ex_plugin
          (saveCurrentPosition ex_plugin (world_with (Doc (JObj [ex_nodes]))) (Some ex_view))
          ex_file)
     = Inr (VObj [(''tx'', VNum (Finite 10)), (''ty'', VNum (Finite 20)),
                  (''tZoom'', VNum (Finite (3 / 2)))])
   \<and> room_for_viewports (JObj [ex_nodes])
   \<and> path (file ex_view) \<notin> set (readonly (vault (world_with (Doc (JObj [ex_nodes])))))"
  using save_then_load_roundtrip
          [of "world_with (Doc (JObj [ex_nodes]))" ex_view "JObj [ex_nodes]" ex_canvas
              10 20 "3 / 2" ex_plugin]
  by (simp add: ex_defs room_for_viewports_def)

text \<open>
  C5, as amended. The record that save persists under the viewport key has exactly the
  fields \<^verbatim>\<open>tx\<close>, \<^verbatim>\<open>ty\<close> and \<^verbatim>\<open>tZoom\<close>, in this order, holding the camera fields of the
  canvas: the zoom factor is stored under the name \<^verbatim>\<open>tZoom\<close>. (Same documents, file and
  canvas as for C2.)
\<close>

theorem saved_record_fields:
  assumes "files (vault w) (path (file v)) = Some (Doc j)"
      and "room_for_viewports j"
      and "path (file v) \<notin> set (readonly (vault w))"
      and "canvas v = Some c"
      and "tx c = VNum (Finite a)" and "ty c = VNum (Finite b)" and "tZoom c = VNum (Finite z)"
  shows "\<exists>j'. files (vault (saveCurrentPosition p w (Some v))) (path (file v)) = Some (Doc j')
           \<and> jentry j' (getViewportKey p)
               = Some (JObj [(''tx'', JNum a), (''ty'', JNum b), (''tZoom'', JNum z)])"
proof -
  obtain j' where s: "saved_doc (getViewportKey p) (position_json c) j = Some j'"
    and e: "jentry j' (getViewportKey p) = Some (position_json c)"
    using saved_doc_entry[OF assms(2)] by blast
  have f: "files (vault (saveCurrentPosition p w (Some v))) (path (file v)) = Some (Doc j')"
    using assms(1,3) s by (simp add: saveCurrentPosition_cases[OF assms(4)] files_written)
  show ?thesis
    using f e position_json_finite[OF assms(5-7)] by simp
qed

text \<open>
  There is no field \<^verbatim>\<open>zoom\<close>: in the record that save writes for the example canvas the
  name \<^verbatim>\<open>zoom\<close> is absent. Load does not rename either: a record stored with \<^verbatim>\<open>zoom\<close> comes
  back as it is, and the field \<^verbatim>\<open>tZoom\<close> that \<^verbatim>\<open>restoreViewport\<close> reads from it is undefined.
\<close>

theorem saved_record_fields_counterexample:
  "files (vault (saveCurrentPosition ex_plugin (world_with (Doc (JObj [ex_nodes])))
      (Some ex_view))) ''A.canvas''
     = Some (Doc (JObj [ex_nodes,
         (''viewports'',
          JObj [(''global'',
                 JObj [(''tx'', JNum 10), (''ty'', JNum 20), (''tZoom'', JNum (3 / 2))])])]))
   \<and> jfield (JObj [(''tx'', JNum 10), (''ty'', JNum 20), (''tZoom'', JNum (3 / 2))]) ''zoom''
     = None
   \<and> fst (loadSavedPosition ex_plugin
        (world_with (Doc (doc_with_entry
           (JObj [(''tx'', JNum 10), (''ty'', JNum 20), (''zoom'', JNum (3 / 2))]))))
        ex_file)
     = Inr (VObj [(''tx'', VNum (Finite 10)), (''ty'', VNum (Finite 20)),
                  (''zoom'', VNum (Finite (3 / 2)))])
   \<and> get_prop (VObj [(''tx'', VNum (Finite 10)), (''ty'', VNum (Finite 20)),
                  (''zoom'', VNum (Finite (3 / 2)))]) ''tZoom'' = Inr VUndefined"
  by (simp add: ex_defs run_defs)

theorem saved_record_fields_witness:
  "files (vault (saveCurrentPosition ex_plugin (world_with (Doc (doc_with_entry (JNum 0))))
      (Some ex_view))) ''A.canvas''
     = Some (Doc (doc_with_entry
         (JObj [(''tx'', JNum 10), (''ty'', JNum 20), (''tZoom'', JNum (3 / 2))])))
   \<and> room_for_viewports (doc_with_entry (JNum 0))
   \<and> jentry (doc_with_entry
         (JObj [(''tx'', JNum 10), (''ty'', JNum 20), (''tZoom'', JNum (3 / 2))]))
       (getViewportKey ex_plugin)
     = Some (JObj [(''tx'', JNum 10), (''ty'', JNum 20), (''tZoom'', JNum (3 / 2))])"
  using saved_record_fields
          [of "world_with (Doc (doc_with_entry (JNum 0)))" ex_view "doc_with_entry (JNum 0)"
              ex_canvas 10 20 "3 / 2" ex_plugin]
  by (simp add: ex_defs run_defs room_for_viewports_def)

subsection \<open>Deleting\<close>

text \<open>
  C4. When the document has no entry \<^verbatim>\<open>viewports[K]\<close>, delete returns false and leaves the
  vault as it was: the file's content and the log of writes are unchanged. More
  generally, every delete that returns false leaves the vault unchanged. Delete is
  idempotent: after any delete, a second delete returns false and leaves the vault as
  the first one left it.
\<close>

theorem deleteSavedPosition_noop_idempotent:
  "(\<forall>j. files (vault w) (path (file v)) = Some (Doc j) \<and> jentry j (getViewportKey p) = None \<longrightarrow>
        fst (deleteSavedPosition p w (Some v)) = False
        \<and> vault (snd (deleteSavedPosition p w (Some v))) = vault w)
   \<and> (fst (deleteSavedPosition p w view) = False \<longrightarrow>
        vault (snd (deleteSavedPosition p w view)) = vault w)
   \<and> fst (deleteSavedPosition p (snd (deleteSavedPosition p w view)) view) = False
   \<and> vault (snd (deleteSavedPosition p (snd (deleteSavedPosition p w view)) view))
       = vault (snd (deleteSavedPosition p w view))"
proof (intro conjI allI impI)
  fix j
  assume a: "files (vault w) (path (file v)) = Some (Doc j) \<and> jentry j (getViewportKey p) = None"
  then show "fst (deleteSavedPosition p w (Some v)) = False"
    using deleted_doc_absent[of j "getViewportKey p"]
    by (simp add: deleteSavedPosition_cases)
  then show "vault (snd (deleteSavedPosition p w (Some v))) = vault w"
    using deleteSavedPosition_False_vault[of p w "Some v"] by simp
next
  assume "fst (deleteSavedPosition p w view) = False"
  then show "vault (snd (deleteSavedPosition p w view)) = vault w"
    using deleteSavedPosition_False_vault[of p w view] by simp
next
  show "fst (deleteSavedPosition p (snd (deleteSavedPosition p w view)) view) = False"
    by (rule deleteSavedPosition_twice)
  then show "vault (snd (deleteSavedPosition p (snd (deleteSavedPosition p w view)) view))
       = vault (snd (deleteSavedPosition p w view))"
    using deleteSavedPosition_False_vault[of p "snd (deleteSavedPosition p w view)" view]
    by simp
qed

theorem deleteSavedPosition_noop_idempotent_witness:
  "jentry (JObj [ex_nodes]) (getViewportKey ex_plugin) = None
   \<and> deleteSavedPosition ex_plugin (world_with (Doc (JObj [ex_nodes]))) (Some ex_view)
       = (False, world_with (Doc (JObj [ex_nodes])))
   \<and> fst (deleteSavedPosition ex_plugin (world_with (Doc (doc_with_entry ex_record)))
        (Some ex_view)) = True
   \<and> fst (deleteSavedPosition ex_plugin
        (snd (deleteSavedPosition ex_plugin (world_with (Doc (doc_with_entry ex_record)))
           (Some ex_view))) (Some ex_view)) = False
   \<and> writes (vault (snd (deleteSavedPosition ex_plugin
        (snd (deleteSavedPosition ex_plugin (world_with (Doc (doc_with_entry ex_record)))
           (Some ex_view))) (Some ex_view))))
       = [(''A.canvas'', Doc (JObj [ex_nodes]))]"
  using deleteSavedPosition_noop_idempotent
          [of "world_with (Doc (JObj [ex_nodes]))" ex_view ex_plugin "Some ex_view"]
        deleteSavedPosition_noop_idempotent
          [of "world_with (Doc (doc_with_entry ex_record))" ex_view ex_plugin "Some ex_view"]
  by (simp add: ex_defs run_defs)

text \<open>
  C3, as amended. When the \<^verbatim>\<open>viewports\<close> mapping of the document holds exactly one key,
  the viewport key, and the value under it is truthy (every viewport record is), delete
  on a writable file returns true and leaves a document without a \<^verbatim>\<open>viewports\<close> field.
  Neither delete nor save ever writes a document whose \<^verbatim>\<open>viewports\<close> field is an empty
  mapping.
\<close>

theorem delete_last_entry_removes_viewports:
  "(\<forall>ps e. files (vault w) (path (file v)) = Some (Doc (JObj ps))
         \<and> map_of ps ''viewports'' = Some (JObj [(getViewportKey p, e)])
         \<and> truthy (of_json e)
         \<and> path (file v) \<notin> set (readonly (vault w)) \<longrightarrow>
       fst (deleteSavedPosition p w (Some v)) = True
       \<and> (\<exists>j'. files (vault (snd (deleteSavedPosition p w (Some v)))) (path (file v))
                 = Some (Doc j')
              \<and> jfield j' ''viewports'' = None))
   \<and> (writes (vault (snd (deleteSavedPosition p w view))) = writes (vault w)
       \<or> (\<exists>q j'. writes (vault (snd (deleteSavedPosition p w view)))
                     = writes (vault w) @ [(q, Doc j')]
              \<and> files (vault (snd (deleteSavedPosition p w view))) q = Some (Doc j')
              \<and> jfield j' ''viewports'' \<noteq> Some (JObj [])))
   \<and> (writes (vault (saveCurrentPosition p w view)) = writes (vault w)
       \<or> (\<exists>q j'. writes (vault (saveCurrentPosition p w view))
                     = writes (vault w) @ [(q, Doc j')]
              \<and> files (vault (saveCurrentPosition p w view)) q = Some (Doc j')
              \<and> jfield j' ''viewports'' \<noteq> Some (JObj [])))"
proof (intro conjI allI impI)
  fix ps e
  assume a: "files (vault w) (path (file v)) = Some (Doc (JObj ps))
         \<and> map_of ps ''viewports'' = Some (JObj [(getViewportKey p, e)])
         \<and> truthy (of_json e)
         \<and> path (file v) \<notin> set (readonly (vault w))"
  then have d: "deleted_doc (getViewportKey p) (JObj ps)
                  = Some (JObj (AList.delete ''viewports'' (reparse_all ps)))"
    by (simp add: truthy_of_json)
  show "fst (deleteSavedPosition p w (Some v)) = True"
    using a d by (simp add: deleteSavedPosition_cases)
  show "\<exists>j'. files (vault (snd (deleteSavedPosition p w (Some v)))) (path (file v))
               = Some (Doc j')
            \<and> jfield j' ''viewports'' = None"
    using a d by (simp add: deleteSavedPosition_cases files_written delete_conv')
next
  show "writes (vault (snd (deleteSavedPosition p w view))) = writes (vault w)
       \<or> (\<exists>q j'. writes (vault (snd (deleteSavedPosition p w view)))
                     = writes (vault w) @ [(q, Doc j')]
              \<and> files (vault (snd (deleteSavedPosition p w view))) q = Some (Doc j')
              \<and> jfield j' ''viewports'' \<noteq> Some (JObj []))"
    by (rule deleteSavedPosition_writes)
  show "writes (vault (saveCurrentPosition p w view)) = writes (vault w)
       \<or> (\<exists>q j'. writes (vault (saveCurrentPosition p w view))
                     = writes (vault w) @ [(q, Doc j')]
              \<and> files (vault (saveCurrentPosition p w view)) q = Some (Doc j')
              \<and> jfield j' ''viewports'' \<noteq> Some (JObj []))"
    by (rule saveCurrentPosition_writes)
qed

text \<open>
  The claim as stated fails when the one entry is falsy: for the document
  \<^verbatim>\<open>{"nodes": ..., "viewports": {"global": null}}\<close> delete returns false, writes nothing,
  and the \<^verbatim>\<open>viewports\<close> field is still there.
\<close>

theorem delete_last_entry_counterexample:
  "map_of [ex_nodes, (''viewports'', JObj [(''global'', JNull)])] ''viewports''
      = Some (JObj [(getViewportKey ex_plugin, JNull)])
   \<and> files (vault (world_with (Doc (doc_with_entry JNull)))) (path (file ex_view))
       = Some (Doc (JObj [ex_nodes, (''viewports'', JObj [(''global'', JNull)])]))
   \<and> fst (deleteSavedPosition ex_plugin (world_with (Doc (doc_with_entry JNull)))
        (Some ex_view)) = False
   \<and> files (vault (snd (deleteSavedPosition ex_plugin
        (world_with (Doc (doc_with_entry JNull))) (Some ex_view)))) (path (file ex_view))
       = Some (Doc (JObj [ex_nodes, (''viewports'', JObj [(''global'', JNull)])]))
   \<and> jfield (JObj [ex_nodes, (''viewports'', JObj [(''global'', JNull)])]) ''viewports''
       = Some (JObj [(''global'', JNull)])"
  by (simp add: ex_defs run_defs)

theorem delete_last_entry_removes_viewports_witness:
  "fst (deleteSavedPosition ex_plugin (world_with (Doc (doc_with_entry ex_record)))
      (Some ex_view)) = True
   \<and> files (vault (snd (deleteSavedPosition ex_plugin
        (world_with (Doc (doc_with_entry ex_record))) (Some ex_view)))) ''A.canvas''
       = Some (Doc (JObj [ex_nodes]))
   \<and> jfield (JObj [ex_nodes]) ''viewports'' = None
   \<and> truthy (of_json ex_record)
   \<and> writes (vault (saveCurrentPosition ex_plugin (world_with (Doc (JObj [ex_nodes])))
        (Some ex_view)))
       = [(''A.canvas'', Doc (doc_with_entry ex_record))]
   \<and> jfield (doc_with_entry ex_record) ''viewports'' = Some (JObj [(''global'', ex_record)])"
  using delete_last_entry_removes_viewports
          [of "world_with (Doc (doc_with_entry ex_record))" ex_view ex_plugin "Some ex_view"]
        delete_last_entry_removes_viewports
          [of "world_with (Doc (JObj [ex_nodes]))" ex_view ex_plugin "Some ex_view"]
  by (simp add: ex_defs run_defs)

subsection \<open>What a write leaves alone\<close>




subsection \<open>Restoring\<close>

text \<open>
  C9. The claim is that an exception raised while the camera is applied is caught by the
  applier and shown as a failure notice. The program does not do this. With the record
  \<open>ex_record\<close> saved under \<^verbatim>\<open>global\<close> and a live canvas without the method \<^verbatim>\<open>zoomBy\<close>,
  \<^verbatim>\<open>restoreViewport\<close> resolves after queueing the frame callback and showing no notice;
  the callback then raises a TypeError at the call of \<^verbatim>\<open>zoomBy\<close>, outside the \<^verbatim>\<open>try\<close>, and
  the exception reaches the host's frame dispatcher. On a canvas that has the four
  methods the callback makes the four calls in order and shows the notice of success.
\<close>

theorem restoreViewport_callback_exception_escapes:
  "restoreViewport ex_plugin [\<lparr>file = ex_file, canvas = Some ex_bare_canvas\<rparr>]
      (world_with (Doc (doc_with_entry ex_record))) ex_file
     = (Inr (), (world_with (Doc (doc_with_entry ex_record)))
                  \<lparr>frames := [ex_frame ex_bare_canvas]\<rparr>)
   \<and> frame_callback
        ((world_with (Doc (doc_with_entry ex_record)))\<lparr>frames := [ex_frame ex_bare_canvas]\<rparr>)
        (ex_frame ex_bare_canvas)
     = Inl TypeError
   \<and> notices ((world_with (Doc (doc_with_entry ex_record)))
        \<lparr>frames := [ex_frame ex_bare_canvas]\<rparr>) = []
   \<and> frame_callback (world_with (Doc (doc_with_entry ex_record))) (ex_frame ex_canvas)
     = Inr (ex_canvas\<lparr>calls :=
                [Call ''zoomBy'' [Diff (VNum (Finite (3 / 2))) (VNum (Finite (3 / 2)))],
                 Call ''panTo'' [Val (VNum (Finite 10)), Val (VNum (Finite 20))],
                 Call ''markViewportChanged'' [],
                 Call ''requestFrame'' []]\<rparr>,
            (world_with (Doc (doc_with_entry ex_record)))
              \<lparr>notices := [''Canvas viewport restored'']\<rparr>)"
  by (simp add: ex_defs run_defs ex_bare_canvas_def ex_frame_def)

end
